theory Spec2Isabelle
  imports Main
begin

section \<open>The model downloader script \<open>assets/models/download_model.py\<close>\<close>

text \<open>
  The script prints instructions, asks one question on standard input and, when the
  answer lower-cases to \<open>y\<close>, calls \<open>download_model\<close> once on the second entry of the
  module-level list \<open>MODEL_SOURCES\<close>. Everything it does to the outside (standard
  output, the network, the file system) is written into a state that is passed
  along; everything the outside does to it (the line typed, the outcome of the
  transfer, a failing \<open>stat\<close>, the name of a temporary file) is read from an
  environment record. Texts are the UTF-8 bytes of the Python strings.
\<close>

subsection \<open>Exceptions\<close>

text \<open>
  The exception classes that the calls of the script can raise. All of them derive
  from \<open>Exception\<close> except \<open>KeyboardInterrupt\<close> and \<open>SystemExit\<close>, which derive from
  \<open>BaseException\<close> only. An exception carries the text that \<open>str(e)\<close> gives.
\<close>

datatype exc_class =
    URLError | HTTPError | ContentTooShortError | OSError | EOFError
  | IndexError | KeyError | UnicodeEncodeError | KeyboardInterrupt | SystemExit

datatype py_exc = PyExc (exc_cls: exc_class) (exc_str: string)

fun isinstance_Exception :: "py_exc \<Rightarrow> bool" where
  "isinstance_Exception (PyExc KeyboardInterrupt m) = False"
| "isinstance_Exception (PyExc SystemExit m) = False"
| "isinstance_Exception (PyExc c m) = True"

subsection \<open>Lists and dictionaries\<close>

text \<open>
  A source descriptor is a \<open>dict\<close> with string keys and string values, kept as an
  association list in insertion order. Subscripting raises \<open>KeyError\<close> on a missing
  key (its text is the \<open>repr\<close> of the key) and \<open>IndexError\<close> on a list index out of
  range.
\<close>

type_synonym source = "(string \<times> string) list"

definition dict_keys :: "source \<Rightarrow> string list" where
  "dict_keys d = remdups (map fst d)"

definition dict_get :: "source \<Rightarrow> string \<Rightarrow> py_exc + string" where
  "dict_get d k =
     (case map_of d k of
        None \<Rightarrow> Inl (PyExc KeyError ([CHR 0x27] @ k @ [CHR 0x27]))
      | Some v \<Rightarrow> Inr v)"

definition list_get :: "'a list \<Rightarrow> nat \<Rightarrow> py_exc + 'a" where
  "list_get xs i =
     (if i < length xs then Inr (xs ! i)
      else Inl (PyExc IndexError ''list index out of range''))"

text \<open>The list literal of lines 11 to 24.\<close>

definition MODEL_SOURCES_literal :: "source list" where
  "MODEL_SOURCES_literal =
     [ [ (''name'', ''FaceNet MobileNet (Recommended)''),
         (''url'', ''https://github.com/sirius-ai/MobileFaceNet_TF/raw/master/arch/pretrained_model/MobileFaceNet_9925_9680.ckpt.data-00000-of-00001''),
         (''filename'', ''mobilefacenet_checkpoint.data''),
         (''note'', ''Needs conversion to TFLite'') ],
       [ (''name'', ''Alternative - Use pre-converted model''),
         (''url'', ''https://storage.googleapis.com/mediapipe-models/face_landmarker/face_landmarker/float16/latest/face_landmarker.task''),
         (''filename'', ''face_landmarker.task''),
         (''note'', ''MediaPipe model'') ] ]"

subsection \<open>Numbers as text\<close>

definition digit_char :: "nat \<Rightarrow> char" where
  "digit_char d = char_of (48 + d)"

function str_nat :: "nat \<Rightarrow> string" where
  "str_nat n =
     (if n < 10 then [digit_char n] else str_nat (n div 10) @ [digit_char (n mod 10)])"
  by pat_completeness auto
termination
  by (relation "measure id") auto

text \<open>Lower-case hexadecimal with a fixed number of digits, as \<open>%04x\<close> gives.\<close>

definition hex_digit :: "nat \<Rightarrow> char" where
  "hex_digit d = (if d < 10 then char_of (48 + d) else char_of (87 + d))"

fun hex :: "nat \<Rightarrow> nat \<Rightarrow> string" where
  "hex 0 n = []"
| "hex (Suc k) n = hex k (n div 16) @ [hex_digit (n mod 16)]"

subsection \<open>The state and the environment\<close>

text \<open>
  Standard output encodes the text it is given. Two encodings are modelled: UTF-8,
  which takes every text, and ASCII (as under \<open>PYTHONIOENCODING=ascii\<close>), which takes
  the characters below 128 and raises \<open>UnicodeEncodeError\<close> on any other. The
  stream under the encoder takes what it is given (a terminal, a file, a pipe that
  is read); a stream that is closed or full is outside the model, and so is an
  encoding that has some of the characters above 127 and lacks others.
\<close>

datatype encoding = UTF_8 | ASCII

text \<open>
  The state: the module global \<open>MODEL_SOURCES\<close> (a mutable Python list), the files
  of the file system by path with their bytes, the chunks written to standard
  output in order, the log of transfers started, each a pair of URL and
  destination file name, and the encoding of standard output.
\<close>

record world =
  MODEL_SOURCES :: "source list"
  files :: "string \<rightharpoonup> string"
  stdout :: "string list"
  net_calls :: "(string \<times> string) list"
  stdout_encoding :: encoding

text \<open>
  What one transfer does: it completes with the body of the response, or it raises.
  When it raises, the destination either was never opened (\<open>None\<close>: a DNS or HTTP
  failure, a destination that cannot be created) or was opened for writing and
  holds the bytes written before the failure (\<open>Some part\<close>: a connection reset, a
  full disk, a body shorter than announced).
\<close>

datatype transfer = is_Complete: Complete string | Interrupted py_exc "string option"

text \<open>
  The environment: what \<open>input()\<close> gives (the line typed without its newline, or
  \<open>EOFError\<close> or \<open>KeyboardInterrupt\<close>), what a transfer from a URL into a file does,
  for which paths \<open>stat\<close> fails whatever the state holds (a file removed or
  locked by another process), with the text of the \<open>OSError\<close>, and the name that
  \<open>tempfile\<close> picks for a new temporary file.
\<close>

record env =
  stdin_line :: "py_exc + string"
  fetch :: "string \<Rightarrow> string \<Rightarrow> transfer"
  stat_fault :: "string \<Rightarrow> string option"
  tempfile_name :: string

subsection \<open>Writing to standard output\<close>

definition is_ascii :: "char \<Rightarrow> bool" where
  "is_ascii c = ((of_char c :: nat) < 128)"

text \<open>The code point of the first character of a text, from its UTF-8 bytes.\<close>

definition code_point :: "string \<Rightarrow> nat" where
  "code_point s =
     (let b = (\<lambda>i. if i < length s then (of_char (s ! i) :: nat) else 0)
      in if b 0 < 128 then b 0
         else if b 0 < 224 then b 0 mod 32 * 64 + b 1 mod 64
         else if b 0 < 240 then b 0 mod 16 * 4096 + b 1 mod 64 * 64 + b 2 mod 64
         else b 0 mod 8 * 262144 + b 1 mod 64 * 4096 + b 2 mod 64 * 64 + b 3 mod 64)"

definition char_escape :: "nat \<Rightarrow> string" where
  "char_escape cp =
     (if cp < 256 then [CHR 0x5C] @ ''x'' @ hex 2 cp
      else if cp < 65536 then [CHR 0x5C] @ ''u'' @ hex 4 cp
      else [CHR 0x5C] @ ''U'' @ hex 8 cp)"

text \<open>
  The text of the \<open>UnicodeEncodeError\<close> of the ASCII codec: it names the first run of
  characters it cannot encode, by position, and the character itself when the run
  is a single one.
\<close>

definition ascii_encode_error :: "string \<Rightarrow> string" where
  "ascii_encode_error s =
     (let start = length (takeWhile is_ascii s);
          run = takeWhile (\<lambda>c. 128 \<le> (of_char c :: nat)) (drop start s);
          count = length (filter (\<lambda>c. 192 \<le> (of_char c :: nat)) run)
      in [CHR 0x27] @ ''ascii'' @ [CHR 0x27] @ '' codec can't encode '' @
         (if count = 1
          then ''character '' @ [CHR 0x27] @ char_escape (code_point run) @ [CHR 0x27] @
               '' in position '' @ str_nat start
          else ''characters in position '' @ str_nat start @ ''-'' @ str_nat (start + count - 1)) @
         '': ordinal not in range(128)'')"

definition encodable :: "world \<Rightarrow> string \<Rightarrow> bool" where
  "encodable w s = (stdout_encoding w = UTF_8 \<or> list_all is_ascii s)"

text \<open>
  \<open>print(s)\<close>: the text is encoded as a whole before anything is written, so a text
  that cannot be encoded leaves standard output as it was.
\<close>

definition py_print :: "string \<Rightarrow> world \<Rightarrow> (py_exc + unit) \<times> world" where
  "py_print s w =
     (if encodable w s then (Inr (), w\<lparr>stdout := stdout w @ [s @ ''\<newline>'']\<rparr>)
      else (Inl (PyExc UnicodeEncodeError (ascii_encode_error s)), w))"

text \<open>A sequence of \<open>print\<close> statements: the first that raises ends it.\<close>

fun print_lines :: "string list \<Rightarrow> world \<Rightarrow> (py_exc + unit) \<times> world" where
  "print_lines [] w = (Inr (), w)"
| "print_lines (s # ss) w =
     (case py_print s w of
        (Inl e, w') \<Rightarrow> (Inl e, w')
      | (Inr u, w') \<Rightarrow> print_lines ss w')"

text \<open>What a sequence of \<open>print\<close> statements adds to standard output when none raises.\<close>

definition written :: "string list \<Rightarrow> string list" where
  "written ss = map (\<lambda>s. s @ ''\<newline>'') ss"

subsection \<open>Library calls\<close>

text \<open>\<open>input(prompt)\<close> writes the prompt without a newline, then reads.\<close>

definition py_input :: "env \<Rightarrow> string \<Rightarrow> world \<Rightarrow> (py_exc + string) \<times> world" where
  "py_input en prompt w = (stdin_line en, w\<lparr>stdout := stdout w @ [prompt]\<rparr>)"

text \<open>
  \<open>str.lower()\<close> on the bytes of the text: the letters \<open>A\<close> to \<open>Z\<close> move to \<open>a\<close> to
  \<open>z\<close>, every other ASCII character stays. Bytes of characters outside ASCII are
  left as they are; the script only compares the result with \<open>'y'\<close>, and no
  character outside ASCII lower-cases to \<open>y\<close>.
\<close>

definition char_lower :: "char \<Rightarrow> char" where
  "char_lower c =
     (let n = (of_char c :: nat) in if 65 \<le> n \<and> n \<le> 90 then char_of (n + 32) else c)"

definition lower :: "string \<Rightarrow> string" where
  "lower s = map char_lower s"

text \<open>
  The scheme of a URL as \<open>urllib\<close> splits it off (the pattern \<open>([^/:]+):(.*)\<close> at the
  start of the URL), lower-cased.
\<close>

definition url_type :: "string \<Rightarrow> string option" where
  "url_type url =
     (let scheme = takeWhile (\<lambda>c. c \<noteq> CHR ''/'' \<and> c \<noteq> CHR '':'') url
      in if scheme \<noteq> [] \<and> length scheme < length url \<and> url ! length scheme = CHR '':''
         then Some (lower scheme) else None)"

text \<open>
  \<open>urllib.request.urlretrieve(url, filename)\<close>: one transfer, logged. The URL is
  opened first. A \<open>file\<close> URL with an empty file name is then returned as it is,
  nothing copied. Otherwise the bytes go to \<open>filename\<close>, or, when \<open>filename\<close> is
  empty, to a new temporary file, which stays.
\<close>

definition urlretrieve :: "env \<Rightarrow> string \<Rightarrow> string \<Rightarrow> world \<Rightarrow> (py_exc + unit) \<times> world" where
  "urlretrieve en url filename w =
     (let w' = w\<lparr>net_calls := net_calls w @ [(url, filename)]\<rparr>;
          dest = (if filename = [] then tempfile_name en else filename)
      in case fetch en url filename of
           Interrupted e None \<Rightarrow> (Inl e, w')
         | Interrupted e (Some part) \<Rightarrow>
             (if url_type url = Some ''file'' \<and> filename = [] then (Inl e, w')
              else (Inl e, w'\<lparr>files := (files w')(dest \<mapsto> part)\<rparr>))
         | Complete body \<Rightarrow>
             (if url_type url = Some ''file'' \<and> filename = [] then (Inr (), w')
              else (Inr (), w'\<lparr>files := (files w')(dest \<mapsto> body)\<rparr>)))"

text \<open>
  \<open>os.path.getsize(filename)\<close>: the size in bytes, or \<open>OSError\<close>. No file has the
  empty path.
\<close>

definition no_such_file :: "string \<Rightarrow> string" where
  "no_such_file filename =
     ''[Errno 2] No such file or directory: '' @ [CHR 0x27] @ filename @ [CHR 0x27]"

definition getsize :: "env \<Rightarrow> string \<Rightarrow> world \<Rightarrow> py_exc + nat" where
  "getsize en filename w =
     (if filename = [] then Inl (PyExc OSError (no_such_file filename))
      else case stat_fault en filename of
             Some m \<Rightarrow> Inl (PyExc OSError m)
           | None \<Rightarrow>
               (case files w filename of
                  None \<Rightarrow> Inl (PyExc OSError (no_such_file filename))
                | Some body \<Rightarrow> Inr (length body)))"

subsection \<open>Formatting the size\<close>

text \<open>
  \<open>file_size = os.path.getsize(filename) / (1024 * 1024)\<close> is the double nearest to
  the quotient: the size rounded to 53 significant bits (ties to even), over \<open>2^20\<close>.
  \<open>f"{file_size:.2f}"\<close> prints that double rounded to hundredths (ties to even on its
  exact value), with at least one digit before the point. Sizes are far below
  \<open>2^1024\<close>, where the division would overflow.
\<close>

function bit_length :: "nat \<Rightarrow> nat" where
  "bit_length n = (if n = 0 then 0 else Suc (bit_length (n div 2)))"
  by pat_completeness auto
termination
  by (relation "measure id") auto

definition round_half_even :: "nat \<Rightarrow> nat \<Rightarrow> nat" where
  "round_half_even a b =
     (let q = a div b; r = a mod b
      in if b < 2 * r \<or> (2 * r = b \<and> q mod 2 = 1) then q + 1 else q)"

definition round53 :: "nat \<Rightarrow> nat" where
  "round53 n = (let s = bit_length n - 53 in round_half_even n (2 ^ s) * 2 ^ s)"

definition hundredths_MB :: "nat \<Rightarrow> nat" where
  "hundredths_MB n = round_half_even (round53 n * 100) (1024 * 1024)"

definition format_2f_MB :: "nat \<Rightarrow> string" where
  "format_2f_MB n =
     (let h = hundredths_MB n
      in str_nat (h div 100) @ ''.'' @ [digit_char (h mod 100 div 10), digit_char (h mod 10)])"

subsection \<open>\<open>download_model\<close>\<close>

definition check_mark :: string where
  "check_mark = [CHR 0xE2, CHR 0x9C, CHR 0x93]"

definition ballot_x :: string where
  "ballot_x = [CHR 0xE2, CHR 0x9C, CHR 0x97]"

text \<open>
  The body of the \<open>try\<close> (lines 32 to 35): the transfer, the size of the destination,
  the report, \<open>return True\<close>. The first call that raises ends it.
\<close>

definition download_model_try :: "env \<Rightarrow> string \<Rightarrow> string \<Rightarrow> world \<Rightarrow> (py_exc + bool) \<times> world" where
  "download_model_try en url filename w =
     (case urlretrieve en url filename w of
        (Inl e, w1) \<Rightarrow> (Inl e, w1)
      | (Inr u, w1) \<Rightarrow>
          (case getsize en filename w1 of
             Inl e \<Rightarrow> (Inl e, w1)
           | Inr n \<Rightarrow>
               (case py_print (check_mark @ '' Downloaded successfully: '' @ format_2f_MB n @ '' MB'') w1 of
                  (Inl e, w2) \<Rightarrow> (Inl e, w2)
                | (Inr u', w2) \<Rightarrow> (Inr True, w2))))"

text \<open>
  Lines 26 to 38. The two header lines are printed outside the \<open>try\<close>.
  \<open>except Exception as e\<close> handles the instances of \<open>Exception\<close>; any other
  exception leaves the function, and so does one raised by the \<open>print\<close> of the
  handler.
\<close>

definition download_model :: "env \<Rightarrow> string \<Rightarrow> string \<Rightarrow> world \<Rightarrow> (py_exc + bool) \<times> world" where
  "download_model en url filename w =
     (case py_print (''Downloading '' @ filename @ ''...'') w of
        (Inl e, w1) \<Rightarrow> (Inl e, w1)
      | (Inr u, w1) \<Rightarrow>
     (case py_print (''From: '' @ url) w1 of
        (Inl e, w2) \<Rightarrow> (Inl e, w2)
      | (Inr u', w2) \<Rightarrow>
     (case download_model_try en url filename w2 of
        (Inr r, w3) \<Rightarrow> (Inr r, w3)
      | (Inl e, w3) \<Rightarrow>
          (if isinstance_Exception e
           then (case py_print (ballot_x @ '' Failed: '' @ exc_str e) w3 of
                   (Inl e', w4) \<Rightarrow> (Inl e', w4)
                 | (Inr u'', w4) \<Rightarrow> (Inr False, w4))
           else (Inl e, w3)))))"

subsection \<open>\<open>main\<close>\<close>

definition rule60 :: "char \<Rightarrow> string" where
  "rule60 c = replicate 60 c"

text \<open>Lines 41 to 58: what is printed before the prompt.\<close>

definition main_intro :: "string list" where
  "main_intro =
     [ rule60 CHR ''='',
       ''MobileFaceNet Model Downloader'',
       rule60 CHR ''='',
       ''\<newline>'' @ [CHR 0xE2, CHR 0x9A, CHR 0xA0, CHR 0xEF, CHR 0xB8, CHR 0x8F] @ ''  IMPORTANT:'',
       ''The original MobileFaceNet_TF repository doesn't provide'',
       ''a pre-converted TFLite model. You have 3 options:\<newline>'',
       ''Option 1: Manual Download (RECOMMENDED)'',
       rule60 CHR ''-'',
       ''1. Visit: https://github.com/kby-ai/FaceRecognition-Flutter'',
       ''2. Navigate to: android/app/src/main/assets/'',
       ''3. Download: mobile_face_net.tflite'',
       ''4. Save as: mobilefacenet.tflite (in this folder)\<newline>'',
       ''Option 2: Use Alternative Model'',
       rule60 CHR ''-'',
       ''Download MediaPipe Face Landmarker (recommended for testing)'' ]"

text \<open>Lines 66 to 69: what the caller prints once \<open>download_model\<close> has returned.\<close>

definition main_followup :: "bool \<Rightarrow> string list" where
  "main_followup success =
     (if success
      then [ ''\<newline>'' @ check_mark @ '' Model downloaded!'',
             ''Note: This is a face detection model, not recognition.'',
             ''You'll need to modify the code to use it.\<newline>'' ]
      else [])"

text \<open>Lines 71 to 76 and 78 to 82: Option 3 and the closing banner.\<close>

definition main_option3 :: "string list" where
  "main_option3 =
     [ ''\<newline>Option 3: Convert TensorFlow Model to TFLite'',
       rule60 CHR ''-'',
       ''1. Clone: git clone https://github.com/sirius-ai/MobileFaceNet_TF'',
       ''2. Install TensorFlow: pip install tensorflow'',
       ''3. Convert using TFLite Converter'',
       ''4. See: CONVERSION_GUIDE.md (to be created)\<newline>'' ]"

definition main_closing :: "string list" where
  "main_closing =
     [ rule60 CHR ''='',
       ''For now, please manually download the model:'',
       ''https://github.com/kby-ai/FaceRecognition-Flutter/raw/main/android/app/src/main/assets/mobile_face_net.tflite'',
       ''\<newline>Save it as: mobilefacenet.tflite'',
       rule60 CHR ''='' ]"

text \<open>
  Lines 61 to 69, the branch taken when the answer is \<open>y\<close>: the two arguments are
  read from the global list (each subscript can raise), then the download, then
  the follow-up.
\<close>

definition main_download :: "env \<Rightarrow> world \<Rightarrow> (py_exc + unit) \<times> world" where
  "main_download en w =
     (case list_get (MODEL_SOURCES w) 1 of
        Inl e \<Rightarrow> (Inl e, w)
      | Inr d \<Rightarrow>
     (case dict_get d ''url'' of
        Inl e \<Rightarrow> (Inl e, w)
      | Inr url \<Rightarrow>
     (case list_get (MODEL_SOURCES w) 1 of
        Inl e \<Rightarrow> (Inl e, w)
      | Inr d' \<Rightarrow>
     (case dict_get d' ''filename'' of
        Inl e \<Rightarrow> (Inl e, w)
      | Inr filename \<Rightarrow>
     (case download_model en url filename w of
        (Inl e, w1) \<Rightarrow> (Inl e, w1)
      | (Inr success, w1) \<Rightarrow> print_lines (main_followup success) w1)))))"

text \<open>Lines 40 to 82. An exception that reaches \<open>main\<close> ends it: nothing handles it.\<close>

definition main :: "env \<Rightarrow> world \<Rightarrow> (py_exc + unit) \<times> world" where
  "main en w =
     (case print_lines main_intro w of
        (Inl e, w1) \<Rightarrow> (Inl e, w1)
      | (Inr u, w1) \<Rightarrow>
     (case py_input en ''Download MediaPipe model? (y/n): '' w1 of
        (Inl e, w2) \<Rightarrow> (Inl e, w2)
      | (Inr line, w2) \<Rightarrow>
          (let choice = lower line
           in case (if choice = ''y'' then main_download en w2 else (Inr (), w2)) of
                (Inl e, w3) \<Rightarrow> (Inl e, w3)
              | (Inr u', w3) \<Rightarrow> print_lines (main_option3 @ main_closing) w3)))"

text \<open>
  A run of the script: the module body builds \<open>MODEL_SOURCES\<close>, nothing has been
  printed or transferred, and \<open>main()\<close> is called on the file system found. The
  run is taken on a UTF-8 standard output. On an ASCII one \<open>main\<close> ends at line 45,
  before the prompt (lemma \<open>main_ASCII_stdout\<close> below).
\<close>

definition module_init :: "(string \<rightharpoonup> string) \<Rightarrow> world" where
  "module_init fs =
     \<lparr>MODEL_SOURCES = MODEL_SOURCES_literal, files = fs, stdout = [], net_calls = [],
      stdout_encoding = UTF_8\<rparr>"

definition script :: "env \<Rightarrow> (string \<rightharpoonup> string) \<Rightarrow> (py_exc + unit) \<times> world" where
  "script en fs = main en (module_init fs)"

subsection \<open>Concrete environments\<close>

text \<open>
  An environment that gives the same transfer outcome for every URL and the same
  \<open>stat\<close> behaviour for every path: enough for one run, which asks for at most one
  transfer.
\<close>

definition env_const :: "(py_exc + string) \<Rightarrow> transfer \<Rightarrow> string option \<Rightarrow> env" where
  "env_const a t f =
     \<lparr>stdin_line = a, fetch = (\<lambda>url filename. t), stat_fault = (\<lambda>filename. f),
      tempfile_name = ''/tmp/tmpk3v9x2qd''\<rparr>"

subsection \<open>Derived notions\<close>

text \<open>
  What the body of the \<open>try\<close> gives before its \<open>print\<close>, read off the environment:
  the exception of the transfer or of the size query, or the size.
\<close>

definition attempt :: "env \<Rightarrow> string \<Rightarrow> string \<Rightarrow> py_exc + nat" where
  "attempt en url filename =
     (case fetch en url filename of
        Interrupted e p \<Rightarrow> Inl e
      | Complete body \<Rightarrow>
          (if filename = [] then Inl (PyExc OSError (no_such_file filename))
           else case stat_fault en filename of
                  Some m \<Rightarrow> Inl (PyExc OSError m)
                | None \<Rightarrow> Inr (length body)))"

text \<open>The state once the introduction and the prompt are on standard output.\<close>

definition after_prompt :: "world \<Rightarrow> world" where
  "after_prompt w = w\<lparr>stdout := stdout w @ written main_intro @ [''Download MediaPipe model? (y/n): '']\<rparr>"

section \<open>Properties\<close>

subsection \<open>Writing and library calls\<close>

declare bit_length.simps [simp del] str_nat.simps [simp del]

lemma env_const_fields [simp]:
  "stdin_line (env_const a t f) = a"
  "fetch (env_const a t f) url filename = t"
  "stat_fault (env_const a t f) filename = f"
  "tempfile_name (env_const a t f) = ''/tmp/tmpk3v9x2qd''"
  by (simp_all add: env_const_def)

lemma py_print_UTF_8:
  "stdout_encoding w = UTF_8 \<Longrightarrow>
   py_print s w = (Inr (), w\<lparr>stdout := stdout w @ [s @ ''\<newline>'']\<rparr>)"
  by (simp add: py_print_def encodable_def)

lemma py_print_ASCII:
  "stdout_encoding w = ASCII \<Longrightarrow>
   py_print s w =
     (if list_all is_ascii s then (Inr (), w\<lparr>stdout := stdout w @ [s @ ''\<newline>'']\<rparr>)
      else (Inl (PyExc UnicodeEncodeError (ascii_encode_error s)), w))"
  by (simp add: py_print_def encodable_def)

lemma py_print_fields [simp]:
  "MODEL_SOURCES (snd (py_print s w)) = MODEL_SOURCES w"
  "files (snd (py_print s w)) = files w"
  "net_calls (snd (py_print s w)) = net_calls w"
  "stdout_encoding (snd (py_print s w)) = stdout_encoding w"
  by (simp_all add: py_print_def)

lemma py_print_stdout:
  "stdout (snd (py_print s w)) =
     (case fst (py_print s w) of Inl e \<Rightarrow> stdout w | Inr u \<Rightarrow> stdout w @ [s @ ''\<newline>''])"
  by (simp add: py_print_def)

lemma py_print_only_stdout: "\<exists>out. snd (py_print s w) = w\<lparr>stdout := out\<rparr>"
proof (cases "encodable w s")
  case True
  then have "snd (py_print s w) = w\<lparr>stdout := stdout w @ [s @ ''\<newline>'']\<rparr>"
    by (simp add: py_print_def)
  then show ?thesis by blast
next
  case False
  then have "snd (py_print s w) = w\<lparr>stdout := stdout w\<rparr>" by (simp add: py_print_def)
  then show ?thesis by blast
qed

lemma print_lines_only_stdout: "\<exists>out. snd (print_lines ss w) = w\<lparr>stdout := out\<rparr>"
proof (induction ss arbitrary: w)
  case Nil
  have "snd (print_lines [] w) = w\<lparr>stdout := stdout w\<rparr>" by simp
  then show ?case by blast
next
  case (Cons s ss)
  obtain r w' where p: "py_print s w = (r, w')" by (cases "py_print s w")
  from py_print_only_stdout [of s w] p obtain out where w': "w' = w\<lparr>stdout := out\<rparr>"
    by auto
  show ?case
  proof (cases r)
    case (Inl e)
    with p w' show ?thesis by auto
  next
    case (Inr u)
    from Cons.IH [of w'] obtain out' where "snd (print_lines ss w') = w'\<lparr>stdout := out'\<rparr>"
      by blast
    with p Inr w' have "snd (print_lines (s # ss) w) = w\<lparr>stdout := out'\<rparr>" by simp
    then show ?thesis by blast
  qed
qed

lemma print_lines_fields [simp]:
  "MODEL_SOURCES (snd (print_lines ss w)) = MODEL_SOURCES w"
  "files (snd (print_lines ss w)) = files w"
  "net_calls (snd (print_lines ss w)) = net_calls w"
  "stdout_encoding (snd (print_lines ss w)) = stdout_encoding w"
proof -
  from print_lines_only_stdout [of ss w] obtain out
    where o: "snd (print_lines ss w) = w\<lparr>stdout := out\<rparr>" by blast
  show "MODEL_SOURCES (snd (print_lines ss w)) = MODEL_SOURCES w"
    and "files (snd (print_lines ss w)) = files w"
    and "net_calls (snd (print_lines ss w)) = net_calls w"
    and "stdout_encoding (snd (print_lines ss w)) = stdout_encoding w"
    by (simp_all add: o)
qed

lemma print_lines_UTF_8:
  "stdout_encoding w = UTF_8 \<Longrightarrow>
   print_lines ss w = (Inr (), w\<lparr>stdout := stdout w @ written ss\<rparr>)"
proof (induction ss arbitrary: w)
  case Nil
  then show ?case by (simp add: written_def)
next
  case (Cons s ss)
  from Cons.prems have "stdout_encoding (w\<lparr>stdout := stdout w @ [s @ ''\<newline>'']\<rparr>) = UTF_8"
    by simp
  from Cons.IH [OF this] Cons.prems show ?case
    by (simp add: py_print_UTF_8 written_def)
qed

lemma py_input_fields [simp]:
  "fst (py_input en prompt w) = stdin_line en"
  "MODEL_SOURCES (snd (py_input en prompt w)) = MODEL_SOURCES w"
  "files (snd (py_input en prompt w)) = files w"
  "net_calls (snd (py_input en prompt w)) = net_calls w"
  "stdout (snd (py_input en prompt w)) = stdout w @ [prompt]"
  "stdout_encoding (snd (py_input en prompt w)) = stdout_encoding w"
  by (simp_all add: py_input_def)

lemma urlretrieve_fields [simp]:
  "MODEL_SOURCES (snd (urlretrieve en url filename w)) = MODEL_SOURCES w"
  "net_calls (snd (urlretrieve en url filename w)) = net_calls w @ [(url, filename)]"
  "stdout (snd (urlretrieve en url filename w)) = stdout w"
  "stdout_encoding (snd (urlretrieve en url filename w)) = stdout_encoding w"
  by (simp_all add: urlretrieve_def Let_def split: transfer.splits option.splits)

lemma urlretrieve_files_other:
  "filename \<noteq> [] \<Longrightarrow> p \<noteq> filename \<Longrightarrow>
   files (snd (urlretrieve en url filename w)) p = files w p"
  by (simp add: urlretrieve_def Let_def split: transfer.splits option.splits)

lemma urlretrieve_files:
  "filename \<noteq> [] \<Longrightarrow>
   files (snd (urlretrieve en url filename w)) =
     (case fetch en url filename of
        Complete body \<Rightarrow> (files w)(filename \<mapsto> body)
      | Interrupted e None \<Rightarrow> files w
      | Interrupted e (Some part) \<Rightarrow> (files w)(filename \<mapsto> part))"
  by (simp add: urlretrieve_def Let_def split: transfer.splits option.splits)

lemma urlretrieve_fst:
  "fst (urlretrieve en url filename w) =
     (case fetch en url filename of Complete body \<Rightarrow> Inr () | Interrupted e p \<Rightarrow> Inl e)"
  by (simp add: urlretrieve_def Let_def split: transfer.splits option.splits)

text \<open>The size query after a completed transfer.\<close>

lemma getsize_after_urlretrieve:
  "fetch en url filename = Complete body \<Longrightarrow>
   getsize en filename (snd (urlretrieve en url filename w)) =
     (if filename = [] then Inl (PyExc OSError (no_such_file filename))
      else case stat_fault en filename of
             Some m \<Rightarrow> Inl (PyExc OSError m)
           | None \<Rightarrow> Inr (length body))"
  by (simp add: getsize_def urlretrieve_files split: option.splits)

lemma try_unfold:
  "download_model_try en url filename w =
     (case attempt en url filename of
        Inl e \<Rightarrow> (Inl e, snd (urlretrieve en url filename w))
      | Inr n \<Rightarrow>
          (case py_print (check_mark @ '' Downloaded successfully: '' @ format_2f_MB n @ '' MB'')
                  (snd (urlretrieve en url filename w)) of
             (Inl e, w2) \<Rightarrow> (Inl e, w2)
           | (Inr u, w2) \<Rightarrow> (Inr True, w2)))"
proof -
  obtain r w1 where u: "urlretrieve en url filename w = (r, w1)"
    by (cases "urlretrieve en url filename w")
  show ?thesis
  proof (cases "fetch en url filename")
    case (Complete body)
    from urlretrieve_fst [of en url filename w] u Complete have r: "r = Inr ()" by simp
    from getsize_after_urlretrieve [OF Complete, of w] u
    have g: "getsize en filename w1 = attempt en url filename"
      by (simp add: attempt_def Complete)
    show ?thesis
      by (simp add: download_model_try_def u r g split: sum.splits)
  next
    case (Interrupted e p)
    from urlretrieve_fst [of en url filename w] u Interrupted have "r = Inl e" by simp
    with u Interrupted show ?thesis
      by (simp add: download_model_try_def attempt_def)
  qed
qed

lemma not_ascii_marks:
  "\<not> is_ascii (CHR 0xE2)"
  by code_simp

lemma check_mark_line_not_ascii:
  "\<not> list_all is_ascii check_mark" "\<not> list_all is_ascii (check_mark @ s)"
  by (simp_all add: check_mark_def not_ascii_marks)

lemma ballot_x_line_not_ascii:
  "\<not> list_all is_ascii ballot_x" "\<not> list_all is_ascii (ballot_x @ s)"
  by (simp_all add: ballot_x_def not_ascii_marks)

lemma urlretrieve_stdout_update:
  "urlretrieve en url filename (w\<lparr>stdout := out\<rparr>) =
     (fst (urlretrieve en url filename w), (snd (urlretrieve en url filename w))\<lparr>stdout := out\<rparr>)"
  by (simp add: urlretrieve_def Let_def split: transfer.splits option.splits)

subsection \<open>\<open>download_model\<close>\<close>

text \<open>On a UTF-8 standard output no \<open>print\<close> raises, and \<open>download_model\<close> is:\<close>

lemma download_model_UTF_8:
  assumes "stdout_encoding w = UTF_8"
  shows "download_model en url filename w =
     (let w3 = snd (urlretrieve en url filename w);
          head = stdout w @ [''Downloading '' @ filename @ ''...\<newline>'', ''From: '' @ url @ ''\<newline>'']
      in case attempt en url filename of
           Inr n \<Rightarrow>
             (Inr True,
              w3\<lparr>stdout := head @
                [check_mark @ '' Downloaded successfully: '' @ format_2f_MB n @ '' MB\<newline>'']\<rparr>)
         | Inl e \<Rightarrow>
             (if isinstance_Exception e
              then (Inr False, w3\<lparr>stdout := head @ [ballot_x @ '' Failed: '' @ exc_str e @ ''\<newline>'']\<rparr>)
              else (Inl e, w3\<lparr>stdout := head\<rparr>)))"
proof -
  let ?w1 = "w\<lparr>stdout := stdout w @ [''Downloading '' @ filename @ ''...\<newline>'']\<rparr>"
  let ?w2 = "w\<lparr>stdout := stdout w @ [''Downloading '' @ filename @ ''...\<newline>'', ''From: '' @ url @ ''\<newline>'']\<rparr>"
  have p1: "py_print (''Downloading '' @ filename @ ''...'') w = (Inr (), ?w1)"
    using assms by (simp add: py_print_UTF_8)
  have p2: "py_print (''From: '' @ url) ?w1 = (Inr (), ?w2)"
    using assms by (simp add: py_print_UTF_8)
  have e3: "stdout_encoding (snd (urlretrieve en url filename ?w2)) = UTF_8"
    using assms by simp
  show ?thesis
    by (simp add: download_model_def p1 p2 try_unfold py_print_UTF_8 [OF e3] py_print_UTF_8 assms
        urlretrieve_stdout_update Let_def split: sum.splits)
qed

lemma download_model_fst_UTF_8:
  assumes "stdout_encoding w = UTF_8"
  shows "fst (download_model en url filename w) =
     (case attempt en url filename of
        Inr n \<Rightarrow> Inr True
      | Inl e \<Rightarrow> if isinstance_Exception e then Inr False else Inl e)"
  by (simp add: download_model_UTF_8 [OF assms] Let_def split: sum.splits)

text \<open>On an ASCII standard output every path of \<open>download_model\<close> ends in an exception.\<close>

lemma download_model_ASCII:
  assumes "stdout_encoding w = ASCII"
  shows "\<exists>e. fst (download_model en url filename w) = Inl e"
proof -
  obtain r1 w1 where p1: "py_print (''Downloading '' @ filename @ ''...'') w = (r1, w1)"
    by (cases "py_print (''Downloading '' @ filename @ ''...'') w")
  from p1 have "w1 = snd (py_print (''Downloading '' @ filename @ ''...'') w)" by simp
  with assms have a1: "stdout_encoding w1 = ASCII" by simp
  obtain r2 w2 where p2: "py_print (''From: '' @ url) w1 = (r2, w2)"
    by (cases "py_print (''From: '' @ url) w1")
  from p2 have "w2 = snd (py_print (''From: '' @ url) w1)" by simp
  with a1 have a2: "stdout_encoding w2 = ASCII" by simp
  have a3: "stdout_encoding (snd (urlretrieve en url filename w2)) = ASCII"
    using a2 by simp
  have t: "\<exists>e w3. download_model_try en url filename w2 = (Inl e, w3) \<and> stdout_encoding w3 = ASCII"
    using a3
    by (cases "attempt en url filename")
       (simp_all add: try_unfold py_print_ASCII check_mark_line_not_ascii)
  then obtain e w3 where t3: "download_model_try en url filename w2 = (Inl e, w3)"
    and a4: "stdout_encoding w3 = ASCII" by blast
  show ?thesis
  proof (cases r1)
    case (Inl e1)
    with p1 show ?thesis by (simp add: download_model_def)
  next
    case u1: (Inr u)
    show ?thesis
    proof (cases r2)
      case (Inl e2)
      with p1 p2 u1 show ?thesis by (simp add: download_model_def)
    next
      case (Inr u')
      with p1 p2 u1 t3 a4 show ?thesis
        by (simp add: download_model_def py_print_ASCII ballot_x_line_not_ascii)
    qed
  qed
qed

lemma download_model_returns_UTF_8:
  assumes "fst (download_model en url filename w) = Inr r"
  shows "stdout_encoding w = UTF_8"
proof (cases "stdout_encoding w")
  case UTF_8
  then show ?thesis .
next
  case ASCII
  from download_model_ASCII [OF this, of en url filename] assms show ?thesis by auto
qed

text \<open>In every case only standard output, the log and the files change.\<close>

lemma download_model_shape:
  "\<exists>out. snd (download_model en url filename w) = w\<lparr>stdout := out\<rparr> \<or>
         snd (download_model en url filename w) = (snd (urlretrieve en url filename w))\<lparr>stdout := out\<rparr>"
proof -
  obtain r1 w1 where p1: "py_print (''Downloading '' @ filename @ ''...'') w = (r1, w1)"
    by (cases "py_print (''Downloading '' @ filename @ ''...'') w")
  from py_print_only_stdout [of "''Downloading '' @ filename @ ''...''" w] p1
  obtain o1 where w1: "w1 = w\<lparr>stdout := o1\<rparr>" by auto
  obtain r2 w2 where p2: "py_print (''From: '' @ url) w1 = (r2, w2)"
    by (cases "py_print (''From: '' @ url) w1")
  from py_print_only_stdout [of "''From: '' @ url" w1] p2 w1
  obtain o2 where w2: "w2 = w\<lparr>stdout := o2\<rparr>" by auto
  obtain r3 w3 where t: "download_model_try en url filename w2 = (r3, w3)"
    by (cases "download_model_try en url filename w2")
  let ?u = "snd (urlretrieve en url filename w)"
  have "\<exists>o3. w3 = ?u\<lparr>stdout := o3\<rparr>"
  proof (cases "attempt en url filename")
    case (Inl e)
    with t w2 have "w3 = ?u\<lparr>stdout := o2\<rparr>"
      by (simp add: try_unfold urlretrieve_stdout_update)
    then show ?thesis by blast
  next
    case (Inr n)
    let ?line = "check_mark @ '' Downloaded successfully: '' @ format_2f_MB n @ '' MB''"
    from py_print_only_stdout [of ?line "?u\<lparr>stdout := o2\<rparr>"]
    obtain o3 where "snd (py_print ?line (?u\<lparr>stdout := o2\<rparr>)) = ?u\<lparr>stdout := o3\<rparr>"
      by auto
    with t w2 Inr have "w3 = ?u\<lparr>stdout := o3\<rparr>"
      by (auto simp add: try_unfold urlretrieve_stdout_update split: prod.splits sum.splits)
    then show ?thesis by blast
  qed
  then obtain o3 where w3: "w3 = ?u\<lparr>stdout := o3\<rparr>" by blast
  from py_print_only_stdout [of "ballot_x @ '' Failed: '' @ exc_str e" w3 for e] w3
  have h: "\<exists>o4. snd (py_print (ballot_x @ '' Failed: '' @ exc_str e) w3) = ?u\<lparr>stdout := o4\<rparr>" for e
    by auto
  show ?thesis
  proof (cases r1)
    case (Inl e)
    with p1 w1 show ?thesis by (auto simp add: download_model_def)
  next
    case u1: (Inr u)
    show ?thesis
    proof (cases r2)
      case (Inl e)
      with p1 p2 u1 w2 show ?thesis by (auto simp add: download_model_def)
    next
      case u2: (Inr u')
      show ?thesis
      proof (cases r3)
        case (Inr r)
        with p1 p2 u1 u2 t w3 show ?thesis by (auto simp add: download_model_def)
      next
        case (Inl e)
        from h [of e] obtain o4
          where "snd (py_print (ballot_x @ '' Failed: '' @ exc_str e) w3) = ?u\<lparr>stdout := o4\<rparr>"
          by blast
        with p1 p2 u1 u2 t w3 Inl show ?thesis
          by (auto simp add: download_model_def split: prod.splits sum.splits)
      qed
    qed
  qed
qed

lemma download_model_fields [simp]:
  "MODEL_SOURCES (snd (download_model en url filename w)) = MODEL_SOURCES w"
  "stdout_encoding (snd (download_model en url filename w)) = stdout_encoding w"
  using download_model_shape [of en url filename w] by auto

lemma download_model_net_calls:
  "net_calls (snd (download_model en url filename w)) = net_calls w \<or>
   net_calls (snd (download_model en url filename w)) = net_calls w @ [(url, filename)]"
  using download_model_shape [of en url filename w] by auto

lemma download_model_files_other:
  assumes "filename \<noteq> []" and "p \<noteq> filename"
  shows "files (snd (download_model en url filename w)) p = files w p"
  using download_model_shape [of en url filename w] urlretrieve_files_other [OF assms, of en url w]
  by auto




subsection \<open>The size printed\<close>

text \<open>
  Below \<open>2^53\<close> bytes the size is a double as it is, and the number printed, in
  hundredths of a megabyte, is within half a hundredth of the size over \<open>2^20\<close>.
\<close>

lemma bit_length_le: "n < 2 ^ k \<Longrightarrow> bit_length n \<le> k"
proof (induction n arbitrary: k rule: bit_length.induct)
  case (1 n)
  show ?case
  proof (cases "n = 0")
    case True
    then show ?thesis by (simp add: bit_length.simps)
  next
    case False
    with "1.prems" obtain j where k: "k = Suc j"
      by (cases k) auto
    with "1.prems" have "n div 2 < 2 ^ j" by auto
    from "1.IH" [OF False this] False k show ?thesis
      by (simp add: bit_length.simps [of n])
  qed
qed

lemma round53_small: "n < 2 ^ 53 \<Longrightarrow> round53 n = n"
  using bit_length_le [of n 53] by (simp add: round53_def round_half_even_def)

lemma round_half_even_close:
  assumes "0 < b"
  shows "2 * (round_half_even a b * b) \<le> 2 * a + b \<and> 2 * a \<le> 2 * (round_half_even a b * b) + b"
proof -
  define q r where "q = a div b" and "r = a mod b"
  have a: "a = q * b + r" and r: "r < b"
    using assms by (simp_all add: q_def r_def)
  show ?thesis
    unfolding round_half_even_def Let_def q_def [symmetric] r_def [symmetric]
    using r by (auto simp add: a algebra_simps)
qed

lemma hundredths_MB_close:
  assumes "n < 2 ^ 53"
  shows "2 * (hundredths_MB n * 2 ^ 20) \<le> 2 * (100 * n) + 2 ^ 20 \<and>
         2 * (100 * n) \<le> 2 * (hundredths_MB n * 2 ^ 20) + 2 ^ 20"
  using round_half_even_close [of "1024 * 1024" "n * 100"] round53_small [OF assms]
  by (simp add: hundredths_MB_def mult.commute)

text \<open>The formatter on two sizes; the second is a tie, rounded to even.\<close>

lemma digit_char_values:
  "digit_char 0 = CHR ''0''" "digit_char (Suc 0) = CHR ''1''" "digit_char 2 = CHR ''2''"
  "digit_char 3 = CHR ''3''" "digit_char 4 = CHR ''4''" "digit_char 5 = CHR ''5''"
  "digit_char 6 = CHR ''6''" "digit_char 7 = CHR ''7''" "digit_char 8 = CHR ''8''"
  "digit_char 9 = CHR ''9''"
  by code_simp+

lemmas format_2f_MB_eval =
  format_2f_MB_def hundredths_MB_def round53_def round_half_even_def
  bit_length.simps str_nat.simps digit_char_values Let_def

lemma format_2f_MB_3758596: "format_2f_MB 3758596 = ''3.58''"
  by (simp add: format_2f_MB_eval)

lemma format_2f_MB_131072: "format_2f_MB 131072 = ''0.12''"
  by (simp add: format_2f_MB_eval)

subsection \<open>The answer\<close>

text \<open>Lower-casing gives \<open>y\<close> for the answers \<open>y\<close> and \<open>Y\<close> only.\<close>

lemma char_lower_eq_y: "char_lower c = CHR ''y'' \<longleftrightarrow> c = CHR ''y'' \<or> c = CHR ''Y''"
proof
  assume a: "char_lower c = CHR ''y''"
  show "c = CHR ''y'' \<or> c = CHR ''Y''"
  proof (cases "65 \<le> (of_char c :: nat) \<and> (of_char c :: nat) \<le> 90")
    case True
    with a have "char_of ((of_char c :: nat) + 32) = CHR ''y''"
      by (simp add: char_lower_def Let_def)
    then have "(of_char (char_of ((of_char c :: nat) + 32) :: char) :: nat) = of_char CHR ''y''"
      by simp
    with True have "(of_char c :: nat) = 89"
      by (simp add: of_char_of)
    then have "char_of (of_char c :: nat) = (char_of (89 :: nat) :: char)"
      by (simp only:)
    moreover have "(char_of (89 :: nat) :: char) = CHR ''Y''"
      by code_simp
    ultimately have "c = CHR ''Y''"
      by (simp only: char_of_char)
    then show ?thesis by simp
  next
    case False
    with a show ?thesis
      by (auto simp add: char_lower_def Let_def)
  qed
next
  have "char_lower CHR ''y'' = CHR ''y''" and "char_lower CHR ''Y'' = CHR ''y''"
    by code_simp+
  moreover assume "c = CHR ''y'' \<or> c = CHR ''Y''"
  ultimately show "char_lower c = CHR ''y''"
    by auto
qed

lemma lower_eq_y: "lower s = ''y'' \<longleftrightarrow> s = ''y'' \<or> s = ''Y''"
proof (cases s)
  case Nil
  then show ?thesis by (simp add: lower_def)
next
  case (Cons c cs)
  then show ?thesis
    by (cases cs) (auto simp add: lower_def char_lower_eq_y)
qed


subsection \<open>\<open>main\<close>\<close>

lemma main_download_literal:
  assumes "MODEL_SOURCES w = MODEL_SOURCES_literal"
  shows "main_download en w =
     (case download_model en
        ''https://storage.googleapis.com/mediapipe-models/face_landmarker/face_landmarker/float16/latest/face_landmarker.task''
        ''face_landmarker.task'' w of
        (Inl e, w1) \<Rightarrow> (Inl e, w1)
      | (Inr success, w1) \<Rightarrow> print_lines (main_followup success) w1)"
  by (simp add: main_download_def assms list_get_def dict_get_def MODEL_SOURCES_literal_def)

lemma main_download_fields [simp]:
  "MODEL_SOURCES (snd (main_download en w)) = MODEL_SOURCES w"
  "stdout_encoding (snd (main_download en w)) = stdout_encoding w"
proof -
  have d: "MODEL_SOURCES (snd (case download_model en url filename w of
        (Inl e, w1) \<Rightarrow> (Inl e, w1)
      | (Inr success, w1) \<Rightarrow> print_lines (main_followup success) w1)) = MODEL_SOURCES w \<and>
     stdout_encoding (snd (case download_model en url filename w of
        (Inl e, w1) \<Rightarrow> (Inl e, w1)
      | (Inr success, w1) \<Rightarrow> print_lines (main_followup success) w1)) = stdout_encoding w"
    for url filename
  proof -
    obtain r w1 where u: "download_model en url filename w = (r, w1)"
      by (cases "download_model en url filename w")
    then have "w1 = snd (download_model en url filename w)" by simp
    then have "MODEL_SOURCES w1 = MODEL_SOURCES w" "stdout_encoding w1 = stdout_encoding w"
      by simp_all
    with u show ?thesis by (simp split: sum.splits)
  qed
  show "MODEL_SOURCES (snd (main_download en w)) = MODEL_SOURCES w"
    unfolding main_download_def
    by (simp add: d split: sum.splits)
  show "stdout_encoding (snd (main_download en w)) = stdout_encoding w"
    unfolding main_download_def
    by (simp add: d split: sum.splits)
qed

lemma main_MODEL_SOURCES: "MODEL_SOURCES (snd (main en w)) = MODEL_SOURCES w"
proof -
  obtain r1 w1 where i: "print_lines main_intro w = (r1, w1)"
    by (cases "print_lines main_intro w")
  then have "w1 = snd (print_lines main_intro w)" by simp
  then have w1: "MODEL_SOURCES w1 = MODEL_SOURCES w" by simp
  let ?p = "py_input en ''Download MediaPipe model? (y/n): '' w1"
  obtain r w2 where p: "?p = (r, w2)" by (cases ?p)
  then have "w2 = snd ?p" by simp
  with w1 have w2: "MODEL_SOURCES w2 = MODEL_SOURCES w" by simp
  show ?thesis
  proof (cases r1)
    case (Inl e)
    with i w1 show ?thesis by (simp add: main_def)
  next
    case u1: (Inr u)
    show ?thesis
    proof (cases r)
      case (Inl e)
      with i u1 p w2 show ?thesis by (simp add: main_def)
    next
      case (Inr line)
      obtain r3 w3 where m: "(if lower line = ''y'' then main_download en w2 else (Inr (), w2)) = (r3, w3)"
        by (cases "if lower line = ''y'' then main_download en w2 else (Inr (), w2)")
      then have "w3 = snd (if lower line = ''y'' then main_download en w2 else (Inr (), w2))"
        by simp
      with w2 have w3: "MODEL_SOURCES w3 = MODEL_SOURCES w" by simp
      have "MODEL_SOURCES (snd (print_lines (main_option3 @ main_closing) w3)) = MODEL_SOURCES w"
        using w3 by simp
      with i u1 p Inr m w3 show ?thesis
        by (simp add: main_def Let_def split: sum.splits)
    qed
  qed
qed

text \<open>On an ASCII standard output \<open>main\<close> ends at line 45: no prompt, no transfer.\<close>

lemma main_intro_ascii_lines:
  "list_all is_ascii (main_intro ! 0)" "list_all is_ascii (main_intro ! 1)"
  "list_all is_ascii (main_intro ! 2)" "\<not> list_all is_ascii (main_intro ! 3)"
  by (simp_all add: main_intro_def rule60_def is_ascii_def list_all_iff)

lemma main_ASCII_stdout:
  assumes "stdout_encoding w = ASCII"
  shows "main en w =
    (Inl (PyExc UnicodeEncodeError (ascii_encode_error (main_intro ! 3))),
     w\<lparr>stdout := stdout w @ written (take 3 main_intro)\<rparr>)"
  using assms
  by (simp add: main_def main_intro_def py_print_ASCII rule60_def list_all_iff is_ascii_def
      written_def)

text \<open>On a UTF-8 standard output:\<close>

lemma after_prompt_fields [simp]:
  "MODEL_SOURCES (after_prompt w) = MODEL_SOURCES w"
  "files (after_prompt w) = files w"
  "net_calls (after_prompt w) = net_calls w"
  "stdout_encoding (after_prompt w) = stdout_encoding w"
  "stdout (after_prompt w) = stdout w @ written main_intro @ [''Download MediaPipe model? (y/n): '']"
  by (simp_all add: after_prompt_def)

lemma main_raised_input:
  assumes "stdout_encoding w = UTF_8" and "stdin_line en = Inl e"
  shows "main en w = (Inl e, after_prompt w)"
  using assms by (simp add: main_def print_lines_UTF_8 py_input_def after_prompt_def)

lemma main_other_answer:
  assumes "stdout_encoding w = UTF_8" and "stdin_line en = Inr line" and "lower line \<noteq> ''y''"
  shows "main en w =
    (Inr (), (after_prompt w)\<lparr>stdout := stdout (after_prompt w) @ written (main_option3 @ main_closing)\<rparr>)"
  using assms by (simp add: main_def print_lines_UTF_8 py_input_def after_prompt_def)

lemma main_answer_y:
  assumes "stdout_encoding w = UTF_8" and "stdin_line en = Inr line" and "lower line = ''y''"
    and "MODEL_SOURCES w = MODEL_SOURCES_literal"
  shows "main en w =
    (case download_model en
        ''https://storage.googleapis.com/mediapipe-models/face_landmarker/face_landmarker/float16/latest/face_landmarker.task''
        ''face_landmarker.task'' (after_prompt w) of
       (Inl e, w3) \<Rightarrow> (Inl e, w3)
     | (Inr success, w3) \<Rightarrow>
         (Inr (), w3\<lparr>stdout := stdout w3 @ written (main_followup success) @
                                written (main_option3 @ main_closing)\<rparr>))"
proof -
  let ?url = "''https://storage.googleapis.com/mediapipe-models/face_landmarker/face_landmarker/float16/latest/face_landmarker.task''"
  have ms: "MODEL_SOURCES (after_prompt w) = MODEL_SOURCES_literal" using assms(4) by simp
  obtain r w3 where d: "download_model en ?url ''face_landmarker.task'' (after_prompt w) = (r, w3)"
    by (cases "download_model en ?url ''face_landmarker.task'' (after_prompt w)")
  then have "w3 = snd (download_model en ?url ''face_landmarker.task'' (after_prompt w))" by simp
  with assms(1) have e3: "stdout_encoding w3 = UTF_8" by simp
  have e4: "stdout_encoding (w3\<lparr>stdout := x\<rparr>) = UTF_8" for x using e3 by simp
  have m: "main en w =
    (case main_download en (after_prompt w) of
       (Inl e, w3) \<Rightarrow> (Inl e, w3)
     | (Inr u, w3) \<Rightarrow> print_lines (main_option3 @ main_closing) w3)"
    using assms(1,2,3) by (simp add: main_def print_lines_UTF_8 py_input_def after_prompt_def)
  show ?thesis
    unfolding m main_download_literal [OF ms]
    by (simp add: d print_lines_UTF_8 [OF e3] print_lines_UTF_8 [OF e4] split: sum.splits)
qed

lemma main_net_calls:
  assumes "stdout_encoding w = UTF_8" and "MODEL_SOURCES w = MODEL_SOURCES_literal"
  shows "net_calls (snd (main en w)) = net_calls w @
     (case stdin_line en of
        Inl e \<Rightarrow> []
      | Inr line \<Rightarrow>
          if lower line = ''y''
          then [(''https://storage.googleapis.com/mediapipe-models/face_landmarker/face_landmarker/float16/latest/face_landmarker.task'',
                 ''face_landmarker.task'')]
          else [])"
proof (cases "stdin_line en")
  case (Inl e)
  then show ?thesis by (simp add: main_raised_input [OF assms(1)])
next
  case (Inr line)
  show ?thesis
  proof (cases "lower line = ''y''")
    case False
    with Inr show ?thesis by (simp add: main_other_answer [OF assms(1)])
  next
    case True
    let ?url = "''https://storage.googleapis.com/mediapipe-models/face_landmarker/face_landmarker/float16/latest/face_landmarker.task''"
    have u: "stdout_encoding (after_prompt w) = UTF_8" using assms(1) by simp
    obtain r w3 where d: "download_model en ?url ''face_landmarker.task'' (after_prompt w) = (r, w3)"
      by (cases "download_model en ?url ''face_landmarker.task'' (after_prompt w)")
    have "net_calls (snd (download_model en ?url ''face_landmarker.task'' (after_prompt w))) =
        net_calls w @ [(?url, ''face_landmarker.task'')]"
      by (simp add: download_model_UTF_8 [OF u] Let_def split: sum.splits)
    with d have "net_calls w3 = net_calls w @ [(?url, ''face_landmarker.task'')]" by simp
    then show ?thesis
      by (simp add: main_answer_y [OF assms(1) Inr True assms(2)] Inr True d split: sum.splits)
  qed
qed

lemma main_files:
  assumes "stdout_encoding w = UTF_8" and "MODEL_SOURCES w = MODEL_SOURCES_literal"
    and "p \<noteq> ''face_landmarker.task''"
  shows "files (snd (main en w)) p = files w p"
proof (cases "stdin_line en")
  case (Inl e)
  then show ?thesis by (simp add: main_raised_input [OF assms(1)])
next
  case (Inr line)
  show ?thesis
  proof (cases "lower line = ''y''")
    case False
    with Inr show ?thesis by (simp add: main_other_answer [OF assms(1)])
  next
    case True
    let ?url = "''https://storage.googleapis.com/mediapipe-models/face_landmarker/face_landmarker/float16/latest/face_landmarker.task''"
    obtain r w3 where d: "download_model en ?url ''face_landmarker.task'' (after_prompt w) = (r, w3)"
      by (cases "download_model en ?url ''face_landmarker.task'' (after_prompt w)")
    have "files (snd (download_model en ?url ''face_landmarker.task'' (after_prompt w))) p = files w p"
      using download_model_files_other [of "''face_landmarker.task''" p en ?url "after_prompt w"] assms(3)
      by simp
    with d have "files w3 p = files w p" by simp
    then show ?thesis
      by (simp add: main_answer_y [OF assms(1) Inr True assms(2)] d split: sum.splits)
  qed
qed

lemma download_model_False_raised:
  assumes "fst (download_model en url filename w) = Inr False"
  shows "\<exists>e. isinstance_Exception e \<and> attempt en url filename = Inl e"
proof -
  from download_model_returns_UTF_8 [OF assms] have u: "stdout_encoding w = UTF_8" .
  from assms show ?thesis
    by (cases "attempt en url filename")
       (auto simp add: download_model_fst_UTF_8 [OF u] split: if_splits)
qed

lemma main_failed_download:
  assumes "stdout_encoding w = UTF_8" and "stdin_line en = Inr line" and "lower line = ''y''"
    and "MODEL_SOURCES w = MODEL_SOURCES_literal"
    and "fst (download_model en
        ''https://storage.googleapis.com/mediapipe-models/face_landmarker/face_landmarker/float16/latest/face_landmarker.task''
        ''face_landmarker.task'' w') = Inr False"
  shows "fst (main en w) = Inr ()"
    and "\<exists>e. isinstance_Exception e \<and> stdout (snd (main en w)) =
      stdout w @ written main_intro @
      [''Download MediaPipe model? (y/n): '',
       ''Downloading face_landmarker.task...\<newline>'',
       ''From: https://storage.googleapis.com/mediapipe-models/face_landmarker/face_landmarker/float16/latest/face_landmarker.task\<newline>'',
       ballot_x @ '' Failed: '' @ exc_str e @ ''\<newline>''] @
      written (main_option3 @ main_closing)"
proof -
  let ?url = "''https://storage.googleapis.com/mediapipe-models/face_landmarker/face_landmarker/float16/latest/face_landmarker.task''"
  from download_model_False_raised [OF assms(5)]
  obtain e where e: "isinstance_Exception e"
    and a: "attempt en ?url ''face_landmarker.task'' = Inl e"
    by blast
  have u: "stdout_encoding (after_prompt w) = UTF_8" using assms(1) by simp
  have m: "main en w =
    (Inr (), (snd (urlretrieve en ?url ''face_landmarker.task'' (after_prompt w)))
       \<lparr>stdout := stdout w @ written main_intro @
          [''Download MediaPipe model? (y/n): '',
           ''Downloading face_landmarker.task...\<newline>'',
           ''From: https://storage.googleapis.com/mediapipe-models/face_landmarker/face_landmarker/float16/latest/face_landmarker.task\<newline>'',
           ballot_x @ '' Failed: '' @ exc_str e @ ''\<newline>''] @
          written (main_option3 @ main_closing)\<rparr>)"
    by (simp add: main_answer_y [OF assms(1,2,3,4)] download_model_UTF_8 [OF u] a e Let_def
        main_followup_def written_def)
  from m show "fst (main en w) = Inr ()" by simp
  from m e show "\<exists>e. isinstance_Exception e \<and> stdout (snd (main en w)) =
      stdout w @ written main_intro @
      [''Download MediaPipe model? (y/n): '',
       ''Downloading face_landmarker.task...\<newline>'',
       ''From: https://storage.googleapis.com/mediapipe-models/face_landmarker/face_landmarker/float16/latest/face_landmarker.task\<newline>'',
       ballot_x @ '' Failed: '' @ exc_str e @ ''\<newline>''] @
      written (main_option3 @ main_closing)"
    by (intro exI [of _ e]) simp
qed

text \<open>The text of the encoding error on two texts.\<close>

lemma ascii_encode_error_cafe:
  "ascii_encode_error [CHR ''c'', CHR ''a'', CHR ''f'', CHR 0xC3, CHR 0xA9] =
     [CHR 0x27] @ ''ascii'' @ [CHR 0x27] @ '' codec can't encode character '' @
     [CHR 0x27, CHR 0x5C] @ ''xe9'' @ [CHR 0x27] @ '' in position 3: ordinal not in range(128)''"
  by code_simp

lemma line_45_error:
  "ascii_encode_error (main_intro ! 3) =
     [CHR 0x27] @ ''ascii'' @ [CHR 0x27] @
     '' codec can't encode characters in position 1-2: ordinal not in range(128)''"
  by code_simp

lemma module_init_fields [simp]:
  "MODEL_SOURCES (module_init fs) = MODEL_SOURCES_literal"
  "files (module_init fs) = fs"
  "stdout (module_init fs) = []"
  "net_calls (module_init fs) = []"
  "stdout_encoding (module_init fs) = UTF_8"
  by (simp_all add: module_init_def)

section \<open>The claims\<close>

subsection \<open>The answer and the download\<close>

text \<open>
  Claim C1. In every run where the line read at the prompt is \<open>y\<close>, the log of
  transfers holds exactly one entry: the URL of the second source, into
  \<open>face_landmarker.task\<close>.
\<close>

theorem answer_y_one_download:
  assumes "stdin_line en = Inr ''y''"
  shows "net_calls (snd (script en fs)) =
    [(''https://storage.googleapis.com/mediapipe-models/face_landmarker/face_landmarker/float16/latest/face_landmarker.task'',
      ''face_landmarker.task'')]"
  using assms by (simp add: script_def main_net_calls lower_eq_y)

theorem answer_y_one_download_witness:
  "stdin_line (env_const (Inr ''y'') (Complete ''model'') None) = Inr ''y'' \<and>
   net_calls (snd (script (env_const (Inr ''y'') (Complete ''model'') None) Map.empty)) =
    [(''https://storage.googleapis.com/mediapipe-models/face_landmarker/face_landmarker/float16/latest/face_landmarker.task'',
      ''face_landmarker.task'')]"
  using answer_y_one_download [of "env_const (Inr ''y'') (Complete ''model'') None" Map.empty]
  by simp

text \<open>
  Claim C2 as stated fails: the answer is lower-cased before the comparison, so
  the answer \<open>Y\<close>, which is not \<open>y\<close>, starts the transfer too.
\<close>

theorem answer_Y_downloads:
  "Inr ''Y'' \<noteq> (Inr ''y'' :: py_exc + string) \<and>
   net_calls (snd (script (env_const (Inr ''Y'') (Complete ''model'') None) Map.empty)) =
    [(''https://storage.googleapis.com/mediapipe-models/face_landmarker/face_landmarker/float16/latest/face_landmarker.task'',
      ''face_landmarker.task'')]"
  by (simp add: script_def main_net_calls lower_eq_y)

text \<open>
  Claim C2, amended. In every run where the prompt gives anything but \<open>y\<close> or \<open>Y\<close>
  (another line, or no line at all), no transfer is started.
\<close>

theorem other_answers_no_download:
  assumes "stdin_line en \<noteq> Inr ''y''" and "stdin_line en \<noteq> Inr ''Y''"
  shows "net_calls (snd (script en fs)) = []"
  using assms
  by (cases "stdin_line en") (simp_all add: script_def main_net_calls lower_eq_y)

theorem other_answers_no_download_witness:
  "stdin_line (env_const (Inr ''n'') (Complete ''model'') None) \<noteq> Inr ''y'' \<and>
   stdin_line (env_const (Inr ''n'') (Complete ''model'') None) \<noteq> Inr ''Y'' \<and>
   net_calls (snd (script (env_const (Inr ''n'') (Complete ''model'') None) Map.empty)) = []"
  using other_answers_no_download [of "env_const (Inr ''n'') (Complete ''model'') None" Map.empty]
  by simp

subsection \<open>After a failed download\<close>

text \<open>
  Claim C4 as stated fails in its first part: the caller prints its follow-up lines
  under \<open>if success\<close> only. In a run where the transfer times out,
  \<open>download_model\<close> returns \<open>False\<close>, the follow-up is empty, and the failure line
  printed by \<open>download_model\<close> is followed at once by Option 3.
\<close>

theorem failed_download_no_followup:
  "fst (download_model
         (env_const (Inr ''y'') (Interrupted (PyExc URLError ''<urlopen error timed out>'') None) None)
         ''https://storage.googleapis.com/mediapipe-models/face_landmarker/face_landmarker/float16/latest/face_landmarker.task''
         ''face_landmarker.task'' (module_init Map.empty)) = Inr False \<and>
   main_followup False = [] \<and>
   stdout (snd (script
         (env_const (Inr ''y'') (Interrupted (PyExc URLError ''<urlopen error timed out>'') None) None)
         Map.empty)) =
     written main_intro @
     [''Download MediaPipe model? (y/n): '',
      ''Downloading face_landmarker.task...\<newline>'',
      ''From: https://storage.googleapis.com/mediapipe-models/face_landmarker/face_landmarker/float16/latest/face_landmarker.task\<newline>'',
      ballot_x @ '' Failed: <urlopen error timed out>\<newline>''] @
     written (main_option3 @ main_closing)"
proof -
  let ?en = "env_const (Inr ''y'') (Interrupted (PyExc URLError ''<urlopen error timed out>'') None) None"
  let ?url = "''https://storage.googleapis.com/mediapipe-models/face_landmarker/face_landmarker/float16/latest/face_landmarker.task''"
  have a: "attempt ?en ?url ''face_landmarker.task'' = Inl (PyExc URLError ''<urlopen error timed out>'')"
    by (simp add: attempt_def)
  have f: "fst (download_model ?en ?url ''face_landmarker.task'' (module_init Map.empty)) = Inr False"
    by (simp add: download_model_fst_UTF_8 a)
  have y: "lower ''y'' = ''y''" by (simp add: lower_eq_y)
  have u: "stdout_encoding (after_prompt (module_init Map.empty)) = UTF_8" by simp
  have "stdout (snd (main ?en (module_init Map.empty))) =
     written main_intro @
     [''Download MediaPipe model? (y/n): '',
      ''Downloading face_landmarker.task...\<newline>'',
      ''From: https://storage.googleapis.com/mediapipe-models/face_landmarker/face_landmarker/float16/latest/face_landmarker.task\<newline>'',
      ballot_x @ '' Failed: <urlopen error timed out>\<newline>''] @
     written (main_option3 @ main_closing)"
    by (simp add: main_answer_y [of _ ?en "''y''", OF _ _ y] download_model_UTF_8 [OF u] a Let_def
        main_followup_def written_def)
  with f show ?thesis
    by (simp add: main_followup_def script_def)
qed

text \<open>
  Claim C4, amended. In every run where the answer lower-cases to \<open>y\<close> and
  \<open>download_model\<close> returns \<open>False\<close>, \<open>main\<close> returns normally and the output is: the
  introduction, the prompt, the two header lines and the failure line of
  \<open>download_model\<close>, then Option 3 and the closing banner, with no line of the
  caller in between.
\<close>

theorem failed_download_continues:
  assumes "stdin_line en = Inr line" and "lower line = ''y''"
    and "fst (download_model en
        ''https://storage.googleapis.com/mediapipe-models/face_landmarker/face_landmarker/float16/latest/face_landmarker.task''
        ''face_landmarker.task'' w) = Inr False"
  shows "fst (script en fs) = Inr () \<and>
    (\<exists>e. isinstance_Exception e \<and> stdout (snd (script en fs)) =
      written main_intro @
      [''Download MediaPipe model? (y/n): '',
       ''Downloading face_landmarker.task...\<newline>'',
       ''From: https://storage.googleapis.com/mediapipe-models/face_landmarker/face_landmarker/float16/latest/face_landmarker.task\<newline>'',
       ballot_x @ '' Failed: '' @ exc_str e @ ''\<newline>''] @
      written (main_option3 @ main_closing))"
proof -
  from main_failed_download [OF _ assms(1,2) _ assms(3), of "module_init fs"] show ?thesis
    by (simp add: script_def)
qed

theorem failed_download_continues_witness:
  "stdin_line (env_const (Inr ''Y'') (Interrupted (PyExc OSError ''[Errno 28] No space left on device'') (Some ''par'')) None) = Inr ''Y'' \<and>
   lower ''Y'' = ''y'' \<and>
   fst (download_model (env_const (Inr ''Y'') (Interrupted (PyExc OSError ''[Errno 28] No space left on device'') (Some ''par'')) None)
        ''https://storage.googleapis.com/mediapipe-models/face_landmarker/face_landmarker/float16/latest/face_landmarker.task''
        ''face_landmarker.task'' (module_init Map.empty)) = Inr False \<and>
   fst (script (env_const (Inr ''Y'') (Interrupted (PyExc OSError ''[Errno 28] No space left on device'') (Some ''par'')) None)
        Map.empty) = Inr ()"
proof -
  let ?en = "env_const (Inr ''Y'') (Interrupted (PyExc OSError ''[Errno 28] No space left on device'') (Some ''par'')) None"
  have a: "stdin_line ?en = Inr ''Y''" by simp
  have b: "lower ''Y'' = ''y''" by (simp add: lower_eq_y)
  have c: "fst (download_model ?en
        ''https://storage.googleapis.com/mediapipe-models/face_landmarker/face_landmarker/float16/latest/face_landmarker.task''
        ''face_landmarker.task'' (module_init Map.empty)) = Inr False"
    by (simp add: download_model_fst_UTF_8 attempt_def)
  from failed_download_continues [OF a b c, of Map.empty] a b c show ?thesis
    by blast
qed

subsection \<open>The list of sources\<close>

text \<open>
  Claim C6. The module body sets \<open>MODEL_SOURCES\<close> to the list literal before
  \<open>main\<close> starts; \<open>main\<close> leaves the global as it found it, whatever the
  environment does; so after a run it still is the literal.
\<close>

theorem MODEL_SOURCES_never_mutated:
  "MODEL_SOURCES (module_init fs) = MODEL_SOURCES_literal \<and>
   MODEL_SOURCES (snd (main en w)) = MODEL_SOURCES w \<and>
   MODEL_SOURCES (snd (script en fs)) = MODEL_SOURCES_literal"
  by (simp add: script_def main_MODEL_SOURCES)

subsection \<open>The first source\<close>

text \<open>
  Claim C9. In every run, every transfer started takes its URL and its file name
  from the second source and neither from the first, and the file
  \<open>mobilefacenet_checkpoint.data\<close> holds after the run what it held before.
\<close>

theorem first_source_never_used:
  "(\<forall>(url, filename) \<in> set (net_calls (snd (script en fs))).
      dict_get (MODEL_SOURCES_literal ! 1) ''url'' = Inr url \<and>
      dict_get (MODEL_SOURCES_literal ! 1) ''filename'' = Inr filename \<and>
      dict_get (MODEL_SOURCES_literal ! 0) ''url'' \<noteq> Inr url \<and>
      dict_get (MODEL_SOURCES_literal ! 0) ''filename'' \<noteq> Inr filename) \<and>
   files (snd (script en fs)) ''mobilefacenet_checkpoint.data'' = fs ''mobilefacenet_checkpoint.data''"
proof
  have "set (net_calls (snd (script en fs))) \<subseteq>
    {(''https://storage.googleapis.com/mediapipe-models/face_landmarker/face_landmarker/float16/latest/face_landmarker.task'',
      ''face_landmarker.task'')}"
    by (cases "stdin_line en") (auto simp add: script_def main_net_calls)
  moreover have
    "dict_get (MODEL_SOURCES_literal ! 0) ''url'' \<noteq>
       Inr ''https://storage.googleapis.com/mediapipe-models/face_landmarker/face_landmarker/float16/latest/face_landmarker.task''"
    "dict_get (MODEL_SOURCES_literal ! 0) ''filename'' \<noteq> Inr ''face_landmarker.task''"
    "dict_get (MODEL_SOURCES_literal ! 1) ''url'' =
       Inr ''https://storage.googleapis.com/mediapipe-models/face_landmarker/face_landmarker/float16/latest/face_landmarker.task''"
    "dict_get (MODEL_SOURCES_literal ! 1) ''filename'' = Inr ''face_landmarker.task''"
    by (simp_all add: dict_get_def MODEL_SOURCES_literal_def)
  ultimately show "\<forall>(url, filename) \<in> set (net_calls (snd (script en fs))).
      dict_get (MODEL_SOURCES_literal ! 1) ''url'' = Inr url \<and>
      dict_get (MODEL_SOURCES_literal ! 1) ''filename'' = Inr filename \<and>
      dict_get (MODEL_SOURCES_literal ! 0) ''url'' \<noteq> Inr url \<and>
      dict_get (MODEL_SOURCES_literal ! 0) ''filename'' \<noteq> Inr filename"
    by auto
  from main_files [of "module_init fs" "''mobilefacenet_checkpoint.data''" en]
  show "files (snd (script en fs)) ''mobilefacenet_checkpoint.data'' = fs ''mobilefacenet_checkpoint.data''"
    by (simp add: script_def)
qed

theorem first_source_never_used_witness:
  "(''https://storage.googleapis.com/mediapipe-models/face_landmarker/face_landmarker/float16/latest/face_landmarker.task'',
    ''face_landmarker.task'') \<in> set (net_calls (snd (script (env_const (Inr ''y'') (Complete ''model'') None) Map.empty))) \<and>
   dict_get (MODEL_SOURCES_literal ! 0) ''url'' \<noteq>
     Inr ''https://storage.googleapis.com/mediapipe-models/face_landmarker/face_landmarker/float16/latest/face_landmarker.task'' \<and>
   dict_get (MODEL_SOURCES_literal ! 0) ''filename'' \<noteq> Inr ''face_landmarker.task'' \<and>
   files (snd (script (env_const (Inr ''y'') (Complete ''model'') None) Map.empty)) ''mobilefacenet_checkpoint.data'' = None"
proof -
  let ?en = "env_const (Inr ''y'') (Complete ''model'') None"
  have m: "(''https://storage.googleapis.com/mediapipe-models/face_landmarker/face_landmarker/float16/latest/face_landmarker.task'',
    ''face_landmarker.task'') \<in> set (net_calls (snd (script ?en Map.empty)))"
    by (simp add: script_def main_net_calls lower_eq_y)
  from first_source_never_used [of ?en Map.empty] m show ?thesis
    by auto
qed

subsection \<open>What \<open>download_model\<close> catches\<close>

text \<open>
  Claim C3 as stated fails, in two ways. The handler is \<open>except Exception\<close>, and a
  \<open>KeyboardInterrupt\<close> raised while the transfer runs is no instance of
  \<open>Exception\<close>: it leaves \<open>download_model\<close>. And on an ASCII standard output the
  handler's own \<open>print\<close> of the failure line raises \<open>UnicodeEncodeError\<close>, so that after
  a \<open>URLError\<close> an exception leaves \<open>download_model\<close> too, and \<open>False\<close> is not
  returned.
\<close>

theorem exceptions_escape_download_model:
  "fst (download_model_try
         (env_const (Inr ''y'') (Interrupted (PyExc KeyboardInterrupt []) (Some ''par'')) None)
         ''https://storage.googleapis.com/mediapipe-models/face_landmarker/face_landmarker/float16/latest/face_landmarker.task''
         ''face_landmarker.task'' (module_init Map.empty)) = Inl (PyExc KeyboardInterrupt []) \<and>
   fst (download_model
         (env_const (Inr ''y'') (Interrupted (PyExc KeyboardInterrupt []) (Some ''par'')) None)
         ''https://storage.googleapis.com/mediapipe-models/face_landmarker/face_landmarker/float16/latest/face_landmarker.task''
         ''face_landmarker.task'' (module_init Map.empty)) = Inl (PyExc KeyboardInterrupt []) \<and>
   fst (download_model_try
         (env_const (Inr ''y'') (Interrupted (PyExc URLError ''<urlopen error timed out>'') None) None)
         ''https://storage.googleapis.com/mediapipe-models/face_landmarker/face_landmarker/float16/latest/face_landmarker.task''
         ''face_landmarker.task'' ((module_init Map.empty)\<lparr>stdout_encoding := ASCII\<rparr>)) =
     Inl (PyExc URLError ''<urlopen error timed out>'') \<and>
   fst (download_model
         (env_const (Inr ''y'') (Interrupted (PyExc URLError ''<urlopen error timed out>'') None) None)
         ''https://storage.googleapis.com/mediapipe-models/face_landmarker/face_landmarker/float16/latest/face_landmarker.task''
         ''face_landmarker.task'' ((module_init Map.empty)\<lparr>stdout_encoding := ASCII\<rparr>)) =
     Inl (PyExc UnicodeEncodeError (ascii_encode_error (ballot_x @ '' Failed: <urlopen error timed out>'')))"
proof (intro conjI)
  let ?k = "env_const (Inr ''y'') (Interrupted (PyExc KeyboardInterrupt []) (Some ''par'')) None"
  let ?t = "env_const (Inr ''y'') (Interrupted (PyExc URLError ''<urlopen error timed out>'') None) None"
  let ?url = "''https://storage.googleapis.com/mediapipe-models/face_landmarker/face_landmarker/float16/latest/face_landmarker.task''"
  let ?a = "(module_init Map.empty)\<lparr>stdout_encoding := ASCII\<rparr>"
  show "fst (download_model_try ?k ?url ''face_landmarker.task'' (module_init Map.empty)) =
      Inl (PyExc KeyboardInterrupt [])"
    by (simp add: try_unfold attempt_def)
  show "fst (download_model ?k ?url ''face_landmarker.task'' (module_init Map.empty)) =
      Inl (PyExc KeyboardInterrupt [])"
    by (simp add: download_model_fst_UTF_8 attempt_def)
  show "fst (download_model_try ?t ?url ''face_landmarker.task'' ?a) =
      Inl (PyExc URLError ''<urlopen error timed out>'')"
    by (simp add: try_unfold attempt_def)
  have h: "list_all is_ascii (''Downloading face_landmarker.task...'')"
    "list_all is_ascii (''From: '' @ ?url)"
    by (simp_all add: is_ascii_def)
  show "fst (download_model ?t ?url ''face_landmarker.task'' ?a) =
      Inl (PyExc UnicodeEncodeError (ascii_encode_error (ballot_x @ '' Failed: <urlopen error timed out>'')))"
    using h
    by (simp add: download_model_def py_print_ASCII try_unfold attempt_def ballot_x_line_not_ascii)
qed

text \<open>
  Claim C3, amended. Whatever the URL and the file name, on a UTF-8 standard
  output, when the body of the \<open>try\<close> raises \<open>e\<close>: an instance of \<open>Exception\<close> is
  caught, the line \<open>Failed:\<close> with its text is printed after the two header lines
  and the function returns \<open>False\<close>; any other exception leaves the function and
  no failure line is printed.
\<close>

theorem download_model_handles_Exception:
  assumes "stdout_encoding w = UTF_8"
    and "fst (download_model_try en url filename w) = Inl e"
  shows "fst (download_model en url filename w) = (if isinstance_Exception e then Inr False else Inl e) \<and>
         stdout (snd (download_model en url filename w)) =
           stdout w @ [''Downloading '' @ filename @ ''...\<newline>'', ''From: '' @ url @ ''\<newline>''] @
           (if isinstance_Exception e then [ballot_x @ '' Failed: '' @ exc_str e @ ''\<newline>''] else [])"
proof -
  have u: "stdout_encoding (snd (urlretrieve en url filename w)) = UTF_8"
    using assms(1) by simp
  from assms(2) have "attempt en url filename = Inl e"
    by (cases "attempt en url filename") (simp_all add: try_unfold py_print_UTF_8 [OF u])
  then show ?thesis
    by (simp add: download_model_UTF_8 [OF assms(1)] Let_def)
qed

theorem download_model_handles_Exception_witness:
  "stdout_encoding (module_init Map.empty) = UTF_8 \<and>
   fst (download_model_try
         (env_const (Inr ''y'') (Interrupted (PyExc URLError ''<urlopen error timed out>'') None) None)
         ''https://example.org/m.bin'' ''m.bin'' (module_init Map.empty)) =
     Inl (PyExc URLError ''<urlopen error timed out>'') \<and>
   fst (download_model
         (env_const (Inr ''y'') (Interrupted (PyExc URLError ''<urlopen error timed out>'') None) None)
         ''https://example.org/m.bin'' ''m.bin'' (module_init Map.empty)) = Inr False \<and>
   stdout (snd (download_model
         (env_const (Inr ''y'') (Interrupted (PyExc URLError ''<urlopen error timed out>'') None) None)
         ''https://example.org/m.bin'' ''m.bin'' (module_init Map.empty))) =
     [''Downloading m.bin...\<newline>'', ''From: https://example.org/m.bin\<newline>'',
      ballot_x @ '' Failed: <urlopen error timed out>\<newline>'']"
proof -
  have u: "stdout_encoding (module_init Map.empty) = UTF_8" by simp
  have h: "fst (download_model_try
         (env_const (Inr ''y'') (Interrupted (PyExc URLError ''<urlopen error timed out>'') None) None)
         ''https://example.org/m.bin'' ''m.bin'' (module_init Map.empty)) =
     Inl (PyExc URLError ''<urlopen error timed out>'')"
    by (simp add: try_unfold attempt_def)
  from u h download_model_handles_Exception [OF u h] show ?thesis
    by simp
qed

subsection \<open>A successful download\<close>

text \<open>
  Claim C5 as stated fails, in two ways. The size is read inside the same \<open>try\<close>, so
  a transfer that completes, followed by a \<open>stat\<close> that fails, gives \<open>False\<close>. And
  on an ASCII standard output, with the transfer complete and the size read, the
  \<open>print\<close> of the report raises, then the \<open>print\<close> of the handler raises, and
  \<open>UnicodeEncodeError\<close> leaves \<open>download_model\<close>.
\<close>

theorem transfer_ok_no_True:
  "fetch (env_const (Inr ''y'') (Complete ''model'') (Some ''[Errno 2] No such file or directory''))
     ''https://storage.googleapis.com/mediapipe-models/face_landmarker/face_landmarker/float16/latest/face_landmarker.task''
     ''face_landmarker.task'' = Complete ''model'' \<and>
   fst (download_model (env_const (Inr ''y'') (Complete ''model'') (Some ''[Errno 2] No such file or directory''))
     ''https://storage.googleapis.com/mediapipe-models/face_landmarker/face_landmarker/float16/latest/face_landmarker.task''
     ''face_landmarker.task'' (module_init Map.empty)) = Inr False \<and>
   fetch (env_const (Inr ''y'') (Complete ''model'') None)
     ''https://storage.googleapis.com/mediapipe-models/face_landmarker/face_landmarker/float16/latest/face_landmarker.task''
     ''face_landmarker.task'' = Complete ''model'' \<and>
   getsize (env_const (Inr ''y'') (Complete ''model'') None) ''face_landmarker.task''
     (snd (urlretrieve (env_const (Inr ''y'') (Complete ''model'') None)
       ''https://storage.googleapis.com/mediapipe-models/face_landmarker/face_landmarker/float16/latest/face_landmarker.task''
       ''face_landmarker.task'' ((module_init Map.empty)\<lparr>stdout_encoding := ASCII\<rparr>))) = Inr 5 \<and>
   fst (download_model (env_const (Inr ''y'') (Complete ''model'') None)
     ''https://storage.googleapis.com/mediapipe-models/face_landmarker/face_landmarker/float16/latest/face_landmarker.task''
     ''face_landmarker.task'' ((module_init Map.empty)\<lparr>stdout_encoding := ASCII\<rparr>)) =
     Inl (PyExc UnicodeEncodeError
       (ascii_encode_error (ballot_x @ '' Failed: '' @
         ascii_encode_error (check_mark @ '' Downloaded successfully: '' @ format_2f_MB 5 @ '' MB''))))"
proof (intro conjI)
  let ?s = "env_const (Inr ''y'') (Complete ''model'') (Some ''[Errno 2] No such file or directory'')"
  let ?c = "env_const (Inr ''y'') (Complete ''model'') None"
  let ?url = "''https://storage.googleapis.com/mediapipe-models/face_landmarker/face_landmarker/float16/latest/face_landmarker.task''"
  let ?a = "(module_init Map.empty)\<lparr>stdout_encoding := ASCII\<rparr>"
  show "fetch ?s ?url ''face_landmarker.task'' = Complete ''model''" by simp
  show "fst (download_model ?s ?url ''face_landmarker.task'' (module_init Map.empty)) = Inr False"
    by (simp add: download_model_fst_UTF_8 attempt_def)
  show "fetch ?c ?url ''face_landmarker.task'' = Complete ''model''" by simp
  show "getsize ?c ''face_landmarker.task'' (snd (urlretrieve ?c ?url ''face_landmarker.task'' ?a)) = Inr 5"
    by (simp add: getsize_after_urlretrieve)
  have a: "attempt ?c ?url ''face_landmarker.task'' = Inr 5"
    by (simp add: attempt_def)
  have h: "list_all is_ascii (''Downloading face_landmarker.task...'')"
    "list_all is_ascii (''From: '' @ ?url)"
    by (simp_all add: is_ascii_def)
  show "fst (download_model ?c ?url ''face_landmarker.task'' ?a) =
     Inl (PyExc UnicodeEncodeError
       (ascii_encode_error (ballot_x @ '' Failed: '' @
         ascii_encode_error (check_mark @ '' Downloaded successfully: '' @ format_2f_MB 5 @ '' MB''))))"
    using h
    by (simp add: download_model_def py_print_ASCII try_unfold a
        ballot_x_line_not_ascii check_mark_line_not_ascii)
qed

text \<open>
  Claim C5, amended. Whatever the URL and the file name, on a UTF-8 standard
  output, when the transfer completes and the size of the destination can be
  read (the file name is not empty and \<open>stat\<close> does not fail), \<open>download_model\<close>
  prints the size of the body in megabytes with two decimals after the two header
  lines, and returns \<open>True\<close>.
\<close>

theorem download_model_success:
  assumes "stdout_encoding w = UTF_8"
    and "fetch en url filename = Complete body"
    and "filename \<noteq> []" and "stat_fault en filename = None"
  shows "fst (download_model en url filename w) = Inr True \<and>
         stdout (snd (download_model en url filename w)) =
           stdout w @ [''Downloading '' @ filename @ ''...\<newline>'', ''From: '' @ url @ ''\<newline>'',
             check_mark @ '' Downloaded successfully: '' @ format_2f_MB (length body) @ '' MB\<newline>'']"
proof -
  from assms(2,3,4) have "attempt en url filename = Inr (length body)"
    by (simp add: attempt_def)
  then show ?thesis
    by (simp add: download_model_UTF_8 [OF assms(1)] Let_def)
qed

theorem download_model_success_witness:
  "stdout_encoding (module_init Map.empty) = UTF_8 \<and>
   fetch (env_const (Inr ''y'') (Complete (replicate 3758596 CHR ''m'')) None)
     ''https://example.org/m.bin'' ''m.bin'' = Complete (replicate 3758596 CHR ''m'') \<and>
   ''m.bin'' \<noteq> [] \<and>
   stat_fault (env_const (Inr ''y'') (Complete (replicate 3758596 CHR ''m'')) None) ''m.bin'' = None \<and>
   fst (download_model (env_const (Inr ''y'') (Complete (replicate 3758596 CHR ''m'')) None)
     ''https://example.org/m.bin'' ''m.bin'' (module_init Map.empty)) = Inr True \<and>
   stdout (snd (download_model (env_const (Inr ''y'') (Complete (replicate 3758596 CHR ''m'')) None)
     ''https://example.org/m.bin'' ''m.bin'' (module_init Map.empty))) =
     [''Downloading m.bin...\<newline>'', ''From: https://example.org/m.bin\<newline>'',
      check_mark @ '' Downloaded successfully: 3.58 MB\<newline>'']"
proof -
  let ?en = "env_const (Inr ''y'') (Complete (replicate 3758596 CHR ''m'')) None"
  have u: "stdout_encoding (module_init Map.empty) = UTF_8" by simp
  have a: "fetch ?en ''https://example.org/m.bin'' ''m.bin'' = Complete (replicate 3758596 CHR ''m'')"
    by simp
  have n: "''m.bin'' \<noteq> []" by simp
  have b: "stat_fault ?en ''m.bin'' = None" by simp
  from download_model_success [OF u a n b] u a b show ?thesis
    by (simp add: format_2f_MB_3758596)
qed

subsection \<open>The file system after \<open>download_model\<close>\<close>




subsection \<open>The fields of a source\<close>

text \<open>
  Claim C8. Every source of the list has exactly the three fields \<open>name\<close>, \<open>url\<close> and
  \<open>filename\<close>, together with a \<open>note\<close>, and no other key.
\<close>

theorem sources_three_fields_and_note:
  "\<forall>d \<in> set MODEL_SOURCES_literal. dict_keys d = [''name'', ''url'', ''filename''] @ [''note'']"
  by (simp add: MODEL_SOURCES_literal_def dict_keys_def)

theorem sources_three_fields_and_note_witness:
  "MODEL_SOURCES_literal ! 1 \<in> set MODEL_SOURCES_literal \<and>
   dict_keys (MODEL_SOURCES_literal ! 1) = [''name'', ''url'', ''filename''] @ [''note'']"
proof -
  have m: "MODEL_SOURCES_literal ! 1 \<in> set MODEL_SOURCES_literal"
    by (simp add: MODEL_SOURCES_literal_def)
  from sources_three_fields_and_note m show ?thesis
    by blast
qed

subsection \<open>The size query\<close>




end
